theory Spec2Isabelle
  imports Complex_Main
begin

section \<open>Tensors\<close>

text \<open>
  The scripts compute with PyTorch tensors of floats. The embedding keeps the entries as
  real numbers (exact arithmetic: no rounding and no NaN) and a tensor as nested lists in
  row-major order. A nested list cannot tell the shape of a tensor one of whose axes is
  empty, so a tensor that crosses a function boundary carries its shape next to its
  entries; the four-dimensional tensors local to \<^verbatim>\<open>MultiHeadAttention.forward\<close> are
  nested lists whose sizes are the local variables \<^verbatim>\<open>b\<close>, \<^verbatim>\<open>num_tokens\<close>,
  \<^verbatim>\<open>num_heads\<close> and \<^verbatim>\<open>head_dim\<close>.
\<close>

type_synonym vec = "real list"
type_synonym matrix = "real list list"
type_synonym tensor4 = "real list list list list"

record 'a tensor2 =
  nrows :: nat
  ncols :: nat
  entries :: "'a list list"

record tensor3 =
  dim0 :: nat
  dim1 :: nat
  dim2 :: nat
  items :: "matrix list"

definition wf_matrix :: "nat \<Rightarrow> nat \<Rightarrow> 'a list list \<Rightarrow> bool" where
  "wf_matrix r c m \<longleftrightarrow> length m = r \<and> (\<forall>row \<in> set m. length row = c)"


definition wf_tensor3 :: "tensor3 \<Rightarrow> bool" where
  "wf_tensor3 t \<longleftrightarrow>
     length (items t) = dim0 t \<and> (\<forall>m \<in> set (items t). wf_matrix (dim1 t) (dim2 t) m)"

text \<open>Python exceptions the modelled code can raise, and sequencing of fallible steps.\<close>

datatype error = AssertionError | ZeroDivisionError | RuntimeError | ValueError

fun and_then :: "'e + 'a \<Rightarrow> ('a \<Rightarrow> 'e + 'b) \<Rightarrow> 'e + 'b" where
  "and_then (Inl e) f = Inl e"
| "and_then (Inr v) f = f v"

subsection \<open>Floats that may be negative infinity\<close>

text \<open>
  \<^verbatim>\<open>masked_fill\<close> writes \<^verbatim>\<open>-torch.inf\<close> into the scores. Dividing negative infinity
  by a positive number leaves it, and its exponential is 0.
\<close>

datatype xreal = MinusInf | Finite real

fun div_x :: "xreal \<Rightarrow> real \<Rightarrow> xreal" where
  "div_x MinusInf d = MinusInf"
| "div_x (Finite r) d = Finite (r / d)"

fun exp_x :: "xreal \<Rightarrow> real" where
  "exp_x MinusInf = 0"
| "exp_x (Finite r) = exp r"

text \<open>
  \<^verbatim>\<open>torch.softmax\<close> along the last axis, on one row:
  \<open>softmax(x)\<^sub>i = exp(x\<^sub>i) / \<Sum>\<^sub>j exp(x\<^sub>j)\<close>.
\<close>

definition softmax :: "xreal list \<Rightarrow> vec" where
  "softmax xs = map (\<lambda>x. exp_x x / sum_list (map exp_x xs)) xs"

subsection \<open>Matrix product, transposition, masks\<close>




text \<open>Exchanging the two axes of an \<open>r \<times> c\<close> nested list.\<close>

definition swap_axes :: "nat \<Rightarrow> nat \<Rightarrow> 'a list list \<Rightarrow> 'a list list" where
  "swap_axes r c m = map (\<lambda>j. map (\<lambda>i. m ! i ! j) [0..<r]) [0..<c]"

definition ones :: "nat \<Rightarrow> nat \<Rightarrow> real tensor2" where
  "ones r c = \<lparr>nrows = r, ncols = c, entries = replicate r (replicate c 1)\<rparr>"

text \<open>\<^verbatim>\<open>torch.triu(m, diagonal=d)\<close>: entries with \<open>j - i < d\<close> become 0.\<close>

definition triu :: "real tensor2 \<Rightarrow> int \<Rightarrow> real tensor2" where
  "triu m d = m\<lparr>entries :=
     map (\<lambda>i. map (\<lambda>j. if d \<le> int j - int i then entries m ! i ! j else 0) [0..<ncols m])
       [0..<nrows m]\<rparr>"

text \<open>\<^verbatim>\<open>.bool()\<close>: non-zero is true.\<close>

definition to_bool :: "real tensor2 \<Rightarrow> bool tensor2" where
  "to_bool m = \<lparr>nrows = nrows m, ncols = ncols m, entries = map (map (\<lambda>v. v \<noteq> 0)) (entries m)\<rparr>"



text \<open>
  \<^verbatim>\<open>s.masked_fill(mask, value)\<close> on a score matrix whose shape the mask can be expanded
  to: an axis of size 1 of the mask is read at index 0.
\<close>

definition masked_fill :: "matrix \<Rightarrow> bool tensor2 \<Rightarrow> xreal \<Rightarrow> xreal list list" where
  "masked_fill s mask_bool v =
     map (\<lambda>i. map (\<lambda>j.
            if entries mask_bool ! (if nrows mask_bool = 1 then 0 else i)
                                 ! (if ncols mask_bool = 1 then 0 else j)
            then v else Finite (s ! i ! j))
          [0..<length (s ! i)])
       [0..<length s]"

section \<open>\<^verbatim>\<open>nn.Linear\<close> and \<^verbatim>\<open>nn.Dropout\<close>\<close>









section \<open>MultiHeadAttention (4.5)\<close>



text \<open>
  \<^verbatim>\<open>t.view(b, num_tokens, num_heads, head_dim)\<close>: the last axis is cut into
  \<^verbatim>\<open>num_heads\<close> consecutive blocks of \<^verbatim>\<open>head_dim\<close> entries. The view is refused when
  a size is negative or the number of entries differs. (A single \<open>-1\<close> would be inferred
  by \<^verbatim>\<open>view\<close>; with \<^verbatim>\<open>head_dim = d_out // num_heads\<close> as the constructor stores it, a
  negative \<^verbatim>\<open>num_heads\<close> gives two negative sizes, a size below \<open>-1\<close>, or the
  ambiguous sizes \<open>(-1, 0)\<close>, all refused.)
\<close>

definition view_heads :: "nat \<Rightarrow> nat \<Rightarrow> vec \<Rightarrow> matrix" where
  "view_heads H hdim v = map (\<lambda>h. take hdim (drop (h * hdim) v)) [0..<H]"

definition view4 :: "tensor3 \<Rightarrow> nat \<Rightarrow> nat \<Rightarrow> int \<Rightarrow> int \<Rightarrow> error + tensor4" where
  "view4 t b n H hdim =
     (if H < 0 \<or> hdim < 0 \<or> dim0 t * dim1 t * dim2 t \<noteq> b * n * nat H * nat hdim
      then Inl RuntimeError
      else Inr (map (map (view_heads (nat H) (nat hdim))) (items t)))"

text \<open>\<^verbatim>\<open>t.transpose(1, 2)\<close> of a tensor of shape \<open>[_, d1, d2, _]\<close>.\<close>

definition transpose_1_2 :: "nat \<Rightarrow> nat \<Rightarrow> tensor4 \<Rightarrow> tensor4" where
  "transpose_1_2 d1 d2 t = map (swap_axes d1 d2) t"



text \<open>\<^verbatim>\<open>t.contiguous().view(b, num_tokens, d_out)\<close> of a tensor of shape \<open>[b, n, H, hdim]\<close>.\<close>

definition view3 :: "tensor4 \<Rightarrow> nat \<Rightarrow> nat \<Rightarrow> nat \<Rightarrow> nat \<Rightarrow> int \<Rightarrow> error + tensor3" where
  "view3 t b n H hdim d =
     (if d < 0 \<or> b * n * H * hdim \<noteq> b * n * nat d then Inl RuntimeError
      else Inr \<lparr>dim0 = b, dim1 = n, dim2 = nat d, items = map (map concat) t\<rparr>)"



section \<open>LayerNorm (4.5)\<close>





section \<open>Masking and scaling of one score matrix\<close>

text \<open>
  Lines 80 and 82 of \<^verbatim>\<open>MultiHeadAttention.forward\<close> (and lines 55 and 59 of the
  script of 3.5.2) on one score matrix, in the order of the code: fill the masked entries
  with negative infinity, divide by \<^verbatim>\<open>keys.shape[-1]**0.5\<close>, take the softmax of
  every row.
\<close>

definition mask_then_scale :: "matrix \<Rightarrow> bool tensor2 \<Rightarrow> nat \<Rightarrow> matrix" where
  "mask_then_scale s mask_bool d_k =
     map (\<lambda>row. softmax (map (\<lambda>v. div_x v (sqrt (real d_k))) row))
       (masked_fill s mask_bool MinusInf)"

text \<open>
  The other order, which the specification allows: scale the scores by
  \<open>1 / sqrt(head_dim)\<close>, then mask, then take the softmax of every row.
\<close>

definition scale_then_mask :: "matrix \<Rightarrow> bool tensor2 \<Rightarrow> nat \<Rightarrow> matrix" where
  "scale_then_mask s mask_bool d_k =
     map softmax (masked_fill (map (map (\<lambda>v. v / sqrt (real d_k))) s) mask_bool MinusInf)"

section \<open>The masking script (3.5.2, lines 51 to 59)\<close>

text \<open>
  \<^verbatim>\<open>context_length = attn_scores.shape[0]\<close>,
  \<^verbatim>\<open>mask = torch.triu(torch.ones(context_length, context_length), diagonal=1)\<close>,
  \<^verbatim>\<open>masked = attn_scores.masked_fill(mask.bool(), -torch.inf)\<close> and
  \<^verbatim>\<open>attn_weights = torch.softmax(masked / keys.shape[-1]**0.5, dim=1)\<close>, as functions of
  \<^verbatim>\<open>attn_scores\<close> and \<^verbatim>\<open>keys.shape[-1]\<close>. The scores are \<^verbatim>\<open>queries @ keys.T\<close>, a
  square matrix, so the mask has their shape; \<^verbatim>\<open>dim=1\<close> is the last axis of a matrix.
\<close>

definition script_mask :: "real tensor2 \<Rightarrow> real tensor2" where
  "script_mask attn_scores =
     (let context_length = nrows attn_scores
      in triu (ones context_length context_length) 1)"

definition script_masked :: "real tensor2 \<Rightarrow> xreal list list" where
  "script_masked attn_scores =
     masked_fill (entries attn_scores) (to_bool (script_mask attn_scores)) MinusInf"

definition script_attn_weights :: "real tensor2 \<Rightarrow> nat \<Rightarrow> matrix" where
  "script_attn_weights attn_scores d_k =
     map (\<lambda>row. softmax (map (\<lambda>v. div_x v (sqrt (real d_k))) row)) (script_masked attn_scores)"

section \<open>SelfAttention\_v1 (3.4.2) and SelfAttention\_v2 (3.5.2)\<close>











section \<open>LayerNorm.forward, GELU and FeedForward (4.5)\<close>







text \<open>
  The configuration dictionary, with the keys of \<^verbatim>\<open>GPT_CONFIG_124M\<close>.
\<close>

record gpt_config =
  vocab_size :: int
  context_length :: int
  emb_dim :: int
  n_heads :: int
  n_layers :: int
  drop_rate :: real
  qkv_bias :: bool




section \<open>TransformerBlock (4.5)\<close>





section \<open>Auxiliary functions of the proofs\<close>



section \<open>Properties of LayerNorm\<close>










section \<open>Properties of softmax\<close>





lemma length_softmax [simp]: "length (softmax xs) = length xs"
  by (simp add: softmax_def)





lemma softmax_append_MinusInf:
  "softmax (xs @ replicate k MinusInf) = softmax xs @ replicate k 0"
  by (simp add: softmax_def map_replicate_const sum_list_replicate)

section \<open>Construction of MultiHeadAttention\<close>





section \<open>Shapes, products and the causal mask\<close>














section \<open>The attention weights of MultiHeadAttention.forward\<close>







section \<open>Sequences longer than the mask\<close>





section \<open>Causality of MultiHeadAttention.forward\<close>







lemma swap_axes_tabulate:
  "swap_axes r c (map (\<lambda>h. map (\<lambda>i. f h i) [0..<c]) [0..<r]) = map (\<lambda>i. map (\<lambda>h. f h i) [0..<r]) [0..<c]"
  unfolding swap_axes_def
  by (intro map_cong refl) simp






section \<open>Splitting into heads and merging\<close>

lemma take_concat_view_heads:
  assumes "H * hdim \<le> length v"
  shows "concat (view_heads H hdim v) = take (H * hdim) v"
  using assms
proof (induction H)
  case 0
  then show ?case by (simp add: view_heads_def)
next
  case (Suc H)
  then have "concat (view_heads H hdim v) = take (H * hdim) v" by simp
  moreover have "view_heads (Suc H) hdim v = view_heads H hdim v @ [take hdim (drop (H * hdim) v)]"
    by (simp add: view_heads_def)
  moreover have "take (H * hdim + hdim) v = take (H * hdim) v @ take hdim (drop (H * hdim) v)"
    by (rule take_add)
  moreover have "Suc H * hdim = H * hdim + hdim" by simp
  ultimately show ?case by (simp only: concat_append concat.simps append_Nil2)
qed

lemma concat_view_heads:
  assumes "length v = H * hdim"
  shows "concat (view_heads H hdim v) = v"
  using take_concat_view_heads [of H hdim v] assms by simp

lemma length_view_heads [simp]: "length (view_heads H hdim v) = H"
  by (simp add: view_heads_def)

lemma merge_split_matrix:
  assumes "length xb = n" "\<And>row. row \<in> set xb \<Longrightarrow> length row = H * hdim"
  shows "map concat (swap_axes H n (swap_axes n H (map (view_heads H hdim) xb))) = xb"
proof -
  have "swap_axes n H (map (view_heads H hdim) xb)
      = map (\<lambda>h. map (\<lambda>i. view_heads H hdim (xb ! i) ! h) [0..<n]) [0..<H]"
    unfolding swap_axes_def using assms(1) by simp
  then have "swap_axes H n (swap_axes n H (map (view_heads H hdim) xb))
      = map (\<lambda>i. map (\<lambda>h. view_heads H hdim (xb ! i) ! h) [0..<H]) [0..<n]"
    by (simp only: swap_axes_tabulate)
  also have "\<dots> = map (\<lambda>i. view_heads H hdim (xb ! i)) [0..<n]"
    using map_nth [of "view_heads H hdim v" for v] by simp
  finally have "map concat (swap_axes H n (swap_axes n H (map (view_heads H hdim) xb)))
      = map (\<lambda>i. concat (view_heads H hdim (xb ! i))) [0..<n]"
    by (simp add: comp_def)
  also have "\<dots> = map (\<lambda>i. xb ! i) [0..<n]"
    by (intro map_cong refl concat_view_heads) (simp add: assms)
  also have "\<dots> = xb" using map_nth [of xb] assms(1) by simp
  finally show ?thesis .
qed

text \<open>
  C3. For a tensor of shape \<open>[b, n, d_out]\<close> with \<open>d_out = num_heads * head_dim\<close>, the
  split of \<^verbatim>\<open>MultiHeadAttention.forward\<close> (\<^verbatim>\<open>view(b, n, num_heads, head_dim)\<close>, then
  \<^verbatim>\<open>transpose(1, 2)\<close>) followed by its merge (\<^verbatim>\<open>transpose(1, 2)\<close>, then
  \<^verbatim>\<open>contiguous().view(b, n, d_out)\<close>) succeeds and gives back the tensor, entry for
  entry.
\<close>

theorem split_merge_roundtrip:
  assumes wf: "wf_tensor3 t" and H: "0 \<le> H" and hd: "0 \<le> hdim"
    and d: "dim2 t = nat H * nat hdim"
  shows "and_then (view4 t (dim0 t) (dim1 t) H hdim) (\<lambda>q.
           view3 (transpose_1_2 (nat H) (dim1 t) (transpose_1_2 (dim1 t) (nat H) q))
             (dim0 t) (dim1 t) (nat H) (nat hdim) (int (dim2 t)))
         = Inr t"
proof -
  have v4: "view4 t (dim0 t) (dim1 t) H hdim = Inr (map (map (view_heads (nat H) (nat hdim))) (items t))"
    using H hd d by (simp add: view4_def mult.assoc)
  have rt: "map (map concat) (transpose_1_2 (nat H) (dim1 t) (transpose_1_2 (dim1 t) (nat H)
        (map (map (view_heads (nat H) (nat hdim))) (items t)))) = items t"
  proof -
    have "map (map concat) (transpose_1_2 (nat H) (dim1 t) (transpose_1_2 (dim1 t) (nat H)
        (map (map (view_heads (nat H) (nat hdim))) (items t))))
      = map (\<lambda>xb. map concat (swap_axes (nat H) (dim1 t) (swap_axes (dim1 t) (nat H)
          (map (view_heads (nat H) (nat hdim)) xb)))) (items t)"
      by (simp add: transpose_1_2_def comp_def)
    also have "\<dots> = map (\<lambda>xb. xb) (items t)"
      by (intro map_cong refl merge_split_matrix)
        (use wf d in \<open>auto simp: wf_tensor3_def wf_matrix_def\<close>)
    finally show ?thesis by simp
  qed
  show ?thesis
    unfolding v4 and_then.simps
    by (simp add: view3_def rt mult.assoc d [symmetric])
qed

theorem split_merge_roundtrip_witness:
  "wf_tensor3 \<lparr>dim0 = 1, dim1 = 2, dim2 = 4, items = [[[1, 2, 3, 4], [5, 6, 7, 8]]]\<rparr>
   \<and> and_then (view4 \<lparr>dim0 = 1, dim1 = 2, dim2 = 4, items = [[[1, 2, 3, 4], [5, 6, 7, 8]]]\<rparr> 1 2 2 2)
        (\<lambda>q. Inr (transpose_1_2 2 2 q))
       = Inr [[[[1, 2], [5, 6]], [[3, 4], [7, 8]]]]
   \<and> and_then (view4 \<lparr>dim0 = 1, dim1 = 2, dim2 = 4, items = [[[1, 2, 3, 4], [5, 6, 7, 8]]]\<rparr> 1 2 2 2)
        (\<lambda>q. view3 (transpose_1_2 2 2 (transpose_1_2 2 2 q)) 1 2 2 2 4)
       = Inr \<lparr>dim0 = 1, dim1 = 2, dim2 = 4, items = [[[1, 2, 3, 4], [5, 6, 7, 8]]]\<rparr>"
proof -
  have wf: "wf_tensor3 \<lparr>dim0 = 1, dim1 = 2, dim2 = 4, items = [[[1, 2, 3, 4], [5, 6, 7, 8]]]\<rparr>"
    by (simp add: wf_tensor3_def wf_matrix_def)
  have split: "and_then (view4 \<lparr>dim0 = 1, dim1 = 2, dim2 = 4, items = [[[1, 2, 3, 4], [5, 6, 7, 8]]]\<rparr> 1 2 2 2)
        (\<lambda>q. Inr (transpose_1_2 2 2 q))
       = Inr [[[[1, 2], [5, 6]], [[3, 4], [7, 8]]]]"
    by (simp add: view4_def view_heads_def transpose_1_2_def swap_axes_def upt_conv_Cons)
  show ?thesis
    using wf split
      split_merge_roundtrip [OF wf, of 2 2]
    by simp
qed

section \<open>Order of masking and scaling\<close>

lemma masked_fill_scale:
  "map (map (\<lambda>v. div_x v d)) (masked_fill s mb MinusInf)
    = masked_fill (map (map (\<lambda>v. v / d)) s) mb MinusInf"
  unfolding masked_fill_def
  by (auto simp: comp_def intro!: map_cong)

lemma attn_weights_step_mask_then_scale:
  "map (map (map (\<lambda>row. softmax (map (\<lambda>s. div_x s (sqrt (real hdim))) row))))
      (map (map (\<lambda>s. masked_fill s mask_bool MinusInf)) attn_scores)
    = map (map (\<lambda>s. mask_then_scale s mask_bool hdim)) attn_scores"
  by (simp add: mask_then_scale_def comp_def)

text \<open>
  C4. For every score matrix, every boolean mask that \<^verbatim>\<open>masked_fill\<close> accepts (the
  causal one among them) and every positive \<^verbatim>\<open>head_dim\<close>: masking and then dividing by
  \<open>sqrt(head_dim)\<close> gives the same matrix as dividing and then masking, so the masked
  entries are still negative infinity after the division, and the softmax rows of the
  code's order (mask, scale, softmax) are those of the other order (scale, mask,
  softmax).
\<close>

theorem mask_scale_order_invariant:
  assumes "0 < d_k"
  shows "map (map (\<lambda>v. div_x v (sqrt (real d_k)))) (masked_fill s mask_bool MinusInf)
      = masked_fill (map (map (\<lambda>v. v / sqrt (real d_k))) s) mask_bool MinusInf
    \<and> mask_then_scale s mask_bool d_k = scale_then_mask s mask_bool d_k"
proof -
  have "mask_then_scale s mask_bool d_k
      = map softmax (map (map (\<lambda>v. div_x v (sqrt (real d_k)))) (masked_fill s mask_bool MinusInf))"
    by (simp add: mask_then_scale_def comp_def)
  then show ?thesis
    by (simp only: masked_fill_scale scale_then_mask_def simp_thms)
qed

theorem mask_scale_order_invariant_witness:
  "0 < (4 :: nat)
   \<and> map (map (\<lambda>v. div_x v (sqrt (real (4 :: nat)))))
        (masked_fill [[1, 2], [3, 4]] (to_bool (triu (ones 2 2) 1)) MinusInf)
      = [[Finite (1 / 2), MinusInf], [Finite (3 / 2), Finite 2]]
   \<and> masked_fill (map (map (\<lambda>v. v / sqrt (real (4 :: nat)))) [[1, 2], [3, 4]])
        (to_bool (triu (ones 2 2) 1)) MinusInf
      = [[Finite (1 / 2), MinusInf], [Finite (3 / 2), Finite 2]]
   \<and> mask_then_scale [[1, 2], [3, 4]] (to_bool (triu (ones 2 2) 1)) 4
      = scale_then_mask [[1, 2], [3, 4]] (to_bool (triu (ones 2 2) 1)) 4"
proof -
  have "map (map (\<lambda>v. div_x v (sqrt (real (4 :: nat)))))
        (masked_fill [[1, 2], [3, 4]] (to_bool (triu (ones 2 2) 1)) MinusInf)
      = [[Finite (1 / 2), MinusInf], [Finite (3 / 2), Finite 2]]"
    by (simp add: masked_fill_def to_bool_def triu_def ones_def upt_conv_Cons)
  then show ?thesis
    using mask_scale_order_invariant [of 4 "[[1, 2], [3, 4]]" "to_bool (triu (ones 2 2) 1)"]
    by simp
qed

section \<open>The masking script on a matrix of ones\<close>

lemma softmax_uniform:
  assumes "0 < k"
  shows "softmax (replicate k (Finite a) @ replicate m MinusInf) = replicate k (1 / real k) @ replicate m 0"
proof -
  have "softmax (replicate k (Finite a)) = replicate k (exp a / (real k * exp a))"
    by (simp add: softmax_def sum_list_replicate map_replicate)
  also have "exp a / (real k * exp a) = 1 / real k"
    using assms by simp
  finally show ?thesis by (simp add: softmax_append_MinusInf)
qed

lemma script_masked_ones:
  "script_masked (ones 6 6) =
     [[Finite 1, MinusInf, MinusInf, MinusInf, MinusInf, MinusInf],
      [Finite 1, Finite 1, MinusInf, MinusInf, MinusInf, MinusInf],
      [Finite 1, Finite 1, Finite 1, MinusInf, MinusInf, MinusInf],
      [Finite 1, Finite 1, Finite 1, Finite 1, MinusInf, MinusInf],
      [Finite 1, Finite 1, Finite 1, Finite 1, Finite 1, MinusInf],
      [Finite 1, Finite 1, Finite 1, Finite 1, Finite 1, Finite 1]]"
  by (simp add: script_masked_def script_mask_def masked_fill_def to_bool_def triu_def ones_def
      Let_def upt_conv_Cons numeral_eq_Suc)

lemma softmax_rows_6:
  shows "softmax [Finite a, MinusInf, MinusInf, MinusInf, MinusInf, MinusInf] = [1, 0, 0, 0, 0, 0]"
    and "softmax [Finite a, Finite a, MinusInf, MinusInf, MinusInf, MinusInf] = [1 / 2, 1 / 2, 0, 0, 0, 0]"
    and "softmax [Finite a, Finite a, Finite a, MinusInf, MinusInf, MinusInf] = [1 / 3, 1 / 3, 1 / 3, 0, 0, 0]"
    and "softmax [Finite a, Finite a, Finite a, Finite a, MinusInf, MinusInf] = [1 / 4, 1 / 4, 1 / 4, 1 / 4, 0, 0]"
    and "softmax [Finite a, Finite a, Finite a, Finite a, Finite a, MinusInf] = [1 / 5, 1 / 5, 1 / 5, 1 / 5, 1 / 5, 0]"
    and "softmax [Finite a, Finite a, Finite a, Finite a, Finite a, Finite a] = [1 / 6, 1 / 6, 1 / 6, 1 / 6, 1 / 6, 1 / 6]"
  using softmax_uniform [of 1 a 5] softmax_uniform [of 2 a 4] softmax_uniform [of 3 a 3] softmax_uniform [of 4 a 2] softmax_uniform [of 5 a 1] softmax_uniform [of 6 a 0]
  by (simp_all add: numeral_eq_Suc)

text \<open>
  C9. In the script of 3.5.2, with a \<open>6 \<times> 6\<close> score matrix of ones (so
  \<^verbatim>\<open>context_length = 6\<close>): \<^verbatim>\<open>masked\<close> holds negative infinity at the 15 entries
  strictly above the diagonal and the score 1 at the 21 entries on or below it, and row
  \<open>i\<close> of \<^verbatim>\<open>attn_weights\<close> (scores divided by \<open>sqrt 2\<close>, as \<^verbatim>\<open>keys.shape[-1]\<close> is 2
  there, then softmax) holds \<open>1 / (i + 1)\<close> at its first \<open>i + 1\<close> entries and 0 after.
\<close>

theorem script_mask_6x6_ones:
  "script_masked (ones 6 6) =
     [[Finite 1, MinusInf, MinusInf, MinusInf, MinusInf, MinusInf],
      [Finite 1, Finite 1, MinusInf, MinusInf, MinusInf, MinusInf],
      [Finite 1, Finite 1, Finite 1, MinusInf, MinusInf, MinusInf],
      [Finite 1, Finite 1, Finite 1, Finite 1, MinusInf, MinusInf],
      [Finite 1, Finite 1, Finite 1, Finite 1, Finite 1, MinusInf],
      [Finite 1, Finite 1, Finite 1, Finite 1, Finite 1, Finite 1]]
   \<and> length (filter (\<lambda>v. v = MinusInf) (concat (script_masked (ones 6 6)))) = 15
   \<and> length (filter (\<lambda>v. v = Finite 1) (concat (script_masked (ones 6 6)))) = 21
   \<and> script_attn_weights (ones 6 6) 2 =
     [[1, 0, 0, 0, 0, 0],
      [1 / 2, 1 / 2, 0, 0, 0, 0],
      [1 / 3, 1 / 3, 1 / 3, 0, 0, 0],
      [1 / 4, 1 / 4, 1 / 4, 1 / 4, 0, 0],
      [1 / 5, 1 / 5, 1 / 5, 1 / 5, 1 / 5, 0],
      [1 / 6, 1 / 6, 1 / 6, 1 / 6, 1 / 6, 1 / 6]]"
  by (simp add: script_attn_weights_def script_masked_ones softmax_rows_6)

section \<open>SelfAttention\_v1 and SelfAttention\_v2\<close>






section \<open>TransformerBlock.forward\<close>











end
